theory Spec2Isabelle
  imports Complex_Main "HOL-Library.AList"
begin

section \<open>VoltEdge: the in-memory charging domain\<close>

text \<open>
  A shallow embedding of \<^verbatim>\<open>models/charger.py\<close>, \<^verbatim>\<open>models/session.py\<close>,
  \<^verbatim>\<open>models/station.py\<close>, \<^verbatim>\<open>models/user.py\<close>, \<^verbatim>\<open>models/maintenance.py\<close> and
  \<^verbatim>\<open>services/service.py\<close>.

  Conventions.
  \<^item> Python objects that are shared and mutated (chargers, sessions, users) live in a
    store: a total function from references to objects together with the next free
    reference. A Python reference never dangles, so the store is total.
  \<^item> A Python \<^verbatim>\<open>str\<close> is the list of the bytes of its UTF-8 encoding.
  \<^item> A naive \<^verbatim>\<open>datetime\<close> is the integer number of microseconds since a fixed origin;
    every call of \<^verbatim>\<open>datetime.now()\<close> is an explicit argument \<open>now\<close>.
  \<^item> A \<^verbatim>\<open>float\<close> is an IEEE 754 binary64 value, \<open>float64\<close> below: every operation
    rounds its exact result to the nearest double.
  \<^item> \<^verbatim>\<open>print\<close> is dropped.
\<close>

type_synonym ref = nat
type_synonym datetime = int
type_synonym uuid = nat

subsection \<open>models/charger.py\<close>

record charger =
  c_id :: int
  c_type :: string
  status :: string

text \<open>\<^verbatim>\<open>Charger(id, type, status="available")\<close>\<close>

definition Charger :: "int \<Rightarrow> string \<Rightarrow> charger" where
  "Charger i t = \<lparr>c_id = i, c_type = t, status = ''available''\<rparr>"

definition start_charge :: "charger \<Rightarrow> charger" where
  "start_charge c = (if status c = ''disponible'' then c\<lparr>status := ''ocupado''\<rparr> else c)"

definition stop_charge :: "charger \<Rightarrow> charger" where
  "stop_charge c = (if status c = ''ocupado'' then c\<lparr>status := ''disponible''\<rparr> else c)"

subsection \<open>models/session.py\<close>

text \<open>
  The difference of two datetimes is a \<^verbatim>\<open>timedelta\<close>, which Python keeps normalised as
  days, seconds (0 to 86399) and microseconds (0 to 999999).
\<close>

record timedelta =
  days :: int
  seconds :: int
  microseconds :: int

definition datetime_sub :: "datetime \<Rightarrow> datetime \<Rightarrow> timedelta" where
  "datetime_sub a b =
     (let d = a - b; r = d mod 86400000000
      in \<lparr>days = d div 86400000000, seconds = r div 1000000, microseconds = r mod 1000000\<rparr>)"

record session =
  s_user :: ref
  s_charger :: ref
  start_time :: datetime
  end_time :: "datetime option"

definition Session :: "datetime \<Rightarrow> ref \<Rightarrow> ref \<Rightarrow> session" where
  "Session now u c = \<lparr>s_user = u, s_charger = c, start_time = now, end_time = None\<rparr>"

definition session_end :: "datetime \<Rightarrow> session \<Rightarrow> session" where
  "session_end now s = s\<lparr>end_time := Some now\<rparr>"

definition get_duration :: "datetime \<Rightarrow> session \<Rightarrow> int" where
  "get_duration now s =
     (case end_time s of
        Some e \<Rightarrow> seconds (datetime_sub e (start_time s)) div 60
      | None \<Rightarrow> seconds (datetime_sub now (start_time s)) div 60)"

subsection \<open>Python floats\<close>

text \<open>
  A \<^verbatim>\<open>float\<close> is a finite double, given by its exact rational value, or one of
  \<^verbatim>\<open>inf\<close>, \<^verbatim>\<open>-inf\<close> and \<^verbatim>\<open>nan\<close>. The two zeros are one value: the program only
  adds, subtracts, multiplies and compares, which does not tell them apart.

  \<open>round64\<close> rounds a rational to the nearest double, ties to the even significand
  (the rounding of every IEEE operation and of a decimal literal): the spacing of the
  doubles around \<open>x\<close> is \<open>2 ^ e\<close>, where \<open>e\<close> is the binary exponent of \<open>x\<close> less 52 and at
  least -1074 (the subnormal range), and a result of magnitude \<open>2 ^ 1024\<close> or more is an
  infinity.
\<close>

datatype float64 = Finite rat | PInf | NInf | NaN

fun ilog2 :: "nat \<Rightarrow> nat" where
  "ilog2 n = (if n < 2 then 0 else Suc (ilog2 (n div 2)))"

declare ilog2.simps [simp del]

definition pow2 :: "int \<Rightarrow> rat" where
  "pow2 k = (if 0 \<le> k then 2 ^ nat k else 1 / 2 ^ nat (- k))"

text \<open>\<open>floor_log2 a\<close> is the integer \<open>k\<close> with \<open>2 ^ k \<le> a < 2 ^ (k + 1)\<close>, for \<open>a > 0\<close>.\<close>

definition floor_log2 :: "rat \<Rightarrow> int" where
  "floor_log2 a =
     (if 1 \<le> a then int (ilog2 (nat \<lfloor>a\<rfloor>))
      else let j = int (ilog2 (nat \<lfloor>1 / a\<rfloor>)) in if pow2 (- j) \<le> a then - j else - j - 1)"

definition round_half_even :: "rat \<Rightarrow> int" where
  "round_half_even m =
     (let f = \<lfloor>m\<rfloor>; r = m - of_int f
      in if r < 1 / 2 then f else if 1 / 2 < r then f + 1 else if even f then f else f + 1)"

definition round64 :: "rat \<Rightarrow> float64" where
  "round64 x =
     (if x = 0 then Finite 0
      else
        let a = \<bar>x\<bar>;
            e = max (floor_log2 a - 52) (- 1074);
            v = of_int (round_half_even (a / pow2 e)) * pow2 e
        in if pow2 1024 \<le> v then (if 0 < x then PInf else NInf)
           else Finite (if 0 < x then v else - v))"

text \<open>
  \<^verbatim>\<open>float(n)\<close> for an integer, as in \<^verbatim>\<open>duracion_minutos * 0.5\<close>. (Python raises
  \<^verbatim>\<open>OverflowError\<close> beyond the range of the doubles; a duration is at most 1439.)
\<close>

definition float_of_int :: "int \<Rightarrow> float64" where
  "float_of_int n = round64 (of_int n)"

fun is_finite :: "float64 \<Rightarrow> bool" where
  "is_finite (Finite x) = True"
| "is_finite PInf = False"
| "is_finite NInf = False"
| "is_finite NaN = False"

fun fneg :: "float64 \<Rightarrow> float64" where
  "fneg (Finite x) = Finite (- x)"
| "fneg PInf = NInf"
| "fneg NInf = PInf"
| "fneg NaN = NaN"

text \<open>\<^verbatim>\<open>x + y\<close>, \<^verbatim>\<open>x - y\<close> and \<^verbatim>\<open>x * y\<close>\<close>

fun fadd :: "float64 \<Rightarrow> float64 \<Rightarrow> float64" where
  "fadd (Finite x) (Finite y) = round64 (x + y)"
| "fadd NaN y = NaN"
| "fadd x NaN = NaN"
| "fadd PInf NInf = NaN"
| "fadd NInf PInf = NaN"
| "fadd PInf y = PInf"
| "fadd x PInf = PInf"
| "fadd NInf y = NInf"
| "fadd x NInf = NInf"

definition fsub :: "float64 \<Rightarrow> float64 \<Rightarrow> float64" where
  "fsub x y = fadd x (fneg y)"

fun fmul :: "float64 \<Rightarrow> float64 \<Rightarrow> float64" where
  "fmul (Finite x) (Finite y) = round64 (x * y)"
| "fmul NaN y = NaN"
| "fmul x NaN = NaN"
| "fmul PInf (Finite y) = (if y = 0 then NaN else if 0 < y then PInf else NInf)"
| "fmul NInf (Finite y) = (if y = 0 then NaN else if 0 < y then NInf else PInf)"
| "fmul (Finite x) PInf = (if x = 0 then NaN else if 0 < x then PInf else NInf)"
| "fmul (Finite x) NInf = (if x = 0 then NaN else if 0 < x then NInf else PInf)"
| "fmul PInf PInf = PInf"
| "fmul NInf NInf = PInf"
| "fmul PInf NInf = NInf"
| "fmul NInf PInf = NInf"

text \<open>\<^verbatim>\<open>x <= y\<close> and \<^verbatim>\<open>x < y\<close>: false whenever an operand is \<^verbatim>\<open>nan\<close>\<close>

fun fle :: "float64 \<Rightarrow> float64 \<Rightarrow> bool" where
  "fle (Finite x) (Finite y) = (x \<le> y)"
| "fle NaN y = False"
| "fle x NaN = False"
| "fle NInf y = True"
| "fle x PInf = True"
| "fle PInf y = False"
| "fle x NInf = False"

fun flt :: "float64 \<Rightarrow> float64 \<Rightarrow> bool" where
  "flt (Finite x) (Finite y) = (x < y)"
| "flt NaN y = False"
| "flt x NaN = False"
| "flt PInf y = False"
| "flt x NInf = False"
| "flt NInf y = True"
| "flt x PInf = True"

subsection \<open>models/user.py\<close>

text \<open>A decimal literal of the source denotes the double nearest to it: \<open>round64 0.30\<close>.\<close>

record user =
  u_id :: uuid
  u_name :: string
  email :: string
  password_hash :: string
  user_type :: string
  active_session :: "ref option"
  saldo :: float64
  sessions_history :: "ref list"

definition User :: "string \<Rightarrow> string \<Rightarrow> string \<Rightarrow> string \<Rightarrow> uuid \<Rightarrow> float64 \<Rightarrow> user" where
  "User n e ph ut i s =
     \<lparr>u_id = i, u_name = n, email = e, password_hash = ph, user_type = ut,
      active_session = None, saldo = s, sessions_history = []\<rparr>"

definition is_admin :: "user \<Rightarrow> bool" where
  "is_admin u = (user_type u = ''admin'')"

definition get_tarifa :: "user \<Rightarrow> float64" where
  "get_tarifa u = (if user_type u = ''empresa'' then round64 0.25 else round64 0.30)"

definition recargar_saldo :: "float64 \<Rightarrow> user \<Rightarrow> bool \<times> user" where
  "recargar_saldo cantidad u =
     (if fle cantidad (Finite 0) then (False, u)
      else (True, u\<lparr>saldo := fadd (saldo u) cantidad\<rparr>))"

definition tiene_saldo_suficiente :: "float64 \<Rightarrow> user \<Rightarrow> bool" where
  "tiene_saldo_suficiente cantidad u = fle cantidad (saldo u)"

definition descontar_saldo :: "float64 \<Rightarrow> user \<Rightarrow> bool \<times> user" where
  "descontar_saldo cantidad u =
     (if \<not> tiene_saldo_suficiente cantidad u then (False, u)
      else (True, u\<lparr>saldo := fsub (saldo u) cantidad\<rparr>))"

subsection \<open>models/station.py\<close>

record station =
  st_id :: int
  st_name :: string
  location :: string
  st_chargers :: "ref list"

definition Station :: "int \<Rightarrow> string \<Rightarrow> string \<Rightarrow> station" where
  "Station i n l = \<lparr>st_id = i, st_name = n, location = l, st_chargers = []\<rparr>"

definition add_charger :: "ref \<Rightarrow> station \<Rightarrow> station" where
  "add_charger c st = st\<lparr>st_chargers := st_chargers st @ [c]\<rparr>"

subsection \<open>models/maintenance.py\<close>

datatype variant = Base | Preventive (frecuencia: string) | Corrective (descripcion_fallo: string)

record maintenance =
  id_mantenimiento :: int
  fecha :: datetime
  tecnico :: string
  tipo :: string
  estado :: string
  estacion_id :: "int option"
  notas :: string
  variant :: variant

text \<open>
  The constructor parses an ISO date with \<^verbatim>\<open>datetime.fromisoformat\<close>; the library
  function is the argument \<open>fromisoformat\<close>, which returns \<open>None\<close> where Python raises
  \<^verbatim>\<open>ValueError\<close>, and then the date is \<open>now\<close>.
\<close>

definition Maintenance ::
  "(string \<Rightarrow> datetime option) \<Rightarrow> datetime \<Rightarrow> int \<Rightarrow> string \<Rightarrow> string \<Rightarrow> string \<Rightarrow> maintenance" where
  "Maintenance fromisoformat now i f t ty =
     \<lparr>id_mantenimiento = i,
      fecha = (case fromisoformat f of Some d \<Rightarrow> d | None \<Rightarrow> now),
      tecnico = t, tipo = ty, estado = ''programado'', estacion_id = None, notas = [],
      variant = Base\<rparr>"

definition PreventiveMaintenance ::
  "(string \<Rightarrow> datetime option) \<Rightarrow> datetime \<Rightarrow> int \<Rightarrow> string \<Rightarrow> string \<Rightarrow> string \<Rightarrow> maintenance" where
  "PreventiveMaintenance fromisoformat now i f t fr =
     (Maintenance fromisoformat now i f t ''preventivo'')\<lparr>variant := Preventive fr\<rparr>"

definition CorrectiveMaintenance ::
  "(string \<Rightarrow> datetime option) \<Rightarrow> datetime \<Rightarrow> int \<Rightarrow> string \<Rightarrow> string \<Rightarrow> string \<Rightarrow> maintenance" where
  "CorrectiveMaintenance fromisoformat now i f t df =
     (Maintenance fromisoformat now i f t ''correctivo'')\<lparr>variant := Corrective df\<rparr>"

definition asignar_estacion :: "int \<Rightarrow> maintenance \<Rightarrow> maintenance" where
  "asignar_estacion station_id m = m\<lparr>estacion_id := Some station_id\<rparr>"

definition programar :: "maintenance \<Rightarrow> maintenance" where
  "programar m = m\<lparr>estado := ''programado''\<rparr>"

definition iniciar :: "maintenance \<Rightarrow> maintenance" where
  "iniciar m = m\<lparr>estado := ''en_proceso''\<rparr>"

definition marcar_completado :: "string \<Rightarrow> maintenance \<Rightarrow> maintenance" where
  "marcar_completado n m = m\<lparr>estado := ''completado'', notas := n\<rparr>"

subsection \<open>The store and the service's dictionaries\<close>

text \<open>
  A Python \<^verbatim>\<open>dict\<close> is an association list in insertion order: assigning to a key that
  is present replaces its value in place, assigning to a new key appends, \<^verbatim>\<open>del\<close>
  removes the key, and \<^verbatim>\<open>values()\<close> lists the values in order.
\<close>

type_synonym ('k, 'v) dict = "('k \<times> 'v) list"

definition dict_get :: "('k, 'v) dict \<Rightarrow> 'k \<Rightarrow> 'v option" where
  "dict_get d k = map_of d k"

definition dict_set :: "('k, 'v) dict \<Rightarrow> 'k \<Rightarrow> 'v \<Rightarrow> ('k, 'v) dict" where
  "dict_set d k v = AList.update k v d"

definition dict_del :: "('k, 'v) dict \<Rightarrow> 'k \<Rightarrow> ('k, 'v) dict" where
  "dict_del d k = AList.delete k d"

definition dict_values :: "('k, 'v) dict \<Rightarrow> 'v list" where
  "dict_values d = map snd d"

definition dict_contains :: "('k, 'v) dict \<Rightarrow> 'k \<Rightarrow> bool" where
  "dict_contains d k = (k \<in> set (map fst d))"

text \<open>
  The state of the program: the objects of the store (\<open>charger_objs\<close>, \<open>session_objs\<close>,
  \<open>user_objs\<close>, with \<open>next_ref\<close> the next reference to hand out) and the five dictionaries
  of \<^verbatim>\<open>ChargingService\<close>. A station and a maintenance are only ever held by their
  dictionary, so they are stored there by value; a station lists its chargers by
  reference.
\<close>

record state =
  charger_objs :: "ref \<Rightarrow> charger"
  session_objs :: "ref \<Rightarrow> session"
  user_objs :: "ref \<Rightarrow> user"
  next_ref :: ref
  stations :: "(int, station) dict"
  chargers :: "(int, ref) dict"
  users :: "(uuid, ref) dict"
  sessions :: "(uuid, ref) dict"
  maintenances :: "(int, maintenance) dict"

text \<open>\<^verbatim>\<open>ChargingService()\<close> in an empty store (the objects at unused references are never read).\<close>

definition ChargingService :: state where
  "ChargingService =
     \<lparr>charger_objs = (\<lambda>_. Charger 0 []),
      session_objs = (\<lambda>_. Session 0 0 0),
      user_objs = (\<lambda>_. User [] [] [] [] 0 (Finite 0)),
      next_ref = 0,
      stations = [], chargers = [], users = [], sessions = [], maintenances = []\<rparr>"

subsection \<open>Methods that reach through references\<close>

text \<open>\<^verbatim>\<open>Station.get_available_chargers\<close> and \<^verbatim>\<open>Station.reserve_charger\<close>\<close>

definition get_available_chargers :: "state \<Rightarrow> station \<Rightarrow> ref list" where
  "get_available_chargers w st =
     filter (\<lambda>c. status (charger_objs w c) = ''available'') (st_chargers st)"

definition reserve_charger :: "station \<Rightarrow> state \<Rightarrow> ref option \<times> state" where
  "reserve_charger st w =
     (case get_available_chargers w st of
        [] \<Rightarrow> (None, w)
      | c # _ \<Rightarrow>
          (Some c, w\<lparr>charger_objs := (charger_objs w)(c := (charger_objs w c)\<lparr>status := ''ocupado''\<rparr>)\<rparr>))"

text \<open>\<^verbatim>\<open>User.start_session(charger)\<close>, for the user at reference \<open>u\<close>\<close>

definition start_session :: "datetime \<Rightarrow> ref \<Rightarrow> ref \<Rightarrow> state \<Rightarrow> ref option \<times> state" where
  "start_session now u c w =
     (if status (charger_objs w c) = ''disponible'' \<or> status (charger_objs w c) = ''available''
      then
        let w1 = w\<lparr>charger_objs := (charger_objs w)(c := start_charge (charger_objs w c))\<rparr>;
            s = next_ref w1;
            w2 = w1\<lparr>session_objs := (session_objs w1)(s := Session now u c), next_ref := Suc s\<rparr>;
            w3 = w2\<lparr>user_objs := (user_objs w2)(u := (user_objs w2 u)\<lparr>active_session := Some s\<rparr>)\<rparr>
        in (Some s, w3)
      else (None, w))"

text \<open>\<^verbatim>\<open>User.end_session()\<close>, for the user at reference \<open>u\<close>\<close>

definition end_session :: "datetime \<Rightarrow> ref \<Rightarrow> state \<Rightarrow> state" where
  "end_session now u w =
     (case active_session (user_objs w u) of
        None \<Rightarrow> w
      | Some s \<Rightarrow>
          let w1 = w\<lparr>session_objs := (session_objs w)(s := session_end now (session_objs w s))\<rparr>;
              duracion_minutos = get_duration now (session_objs w1 s);
              kwh_consumidos = fmul (float_of_int duracion_minutos) (round64 0.5);
              tarifa = get_tarifa (user_objs w1 u);
              coste = fmul kwh_consumidos tarifa;
              w2 = w1\<lparr>user_objs := (user_objs w1)(u := snd (descontar_saldo coste (user_objs w1 u)))\<rparr>;
              w3 = w2\<lparr>user_objs := (user_objs w2)
                     (u := (user_objs w2 u)\<lparr>sessions_history := sessions_history (user_objs w2 u) @ [s]\<rparr>)\<rparr>;
              c = s_charger (session_objs w3 s);
              w4 = w3\<lparr>charger_objs := (charger_objs w3)(c := stop_charge (charger_objs w3 c))\<rparr>
          in w4\<lparr>user_objs := (user_objs w4)(u := (user_objs w4 u)\<lparr>active_session := None\<rparr>)\<rparr>)"

subsection \<open>services/auth\_service.py\<close>

text \<open>
  \<^verbatim>\<open>hash_password\<close> cuts the UTF-8 bytes of the password at 72 and decodes them again,
  ignoring errors: the bytes of a character cut in two are dropped. \<open>decode_ignore\<close> is
  that decoding on a prefix of a well-formed UTF-8 string (what \<^verbatim>\<open>str.encode\<close> returns),
  where the only possible error is an incomplete last character. \<^verbatim>\<open>pwd_context.hash\<close> is
  the library's Argon2 hash, the argument \<open>pwd_hash\<close>.
\<close>

definition utf8_len :: "char \<Rightarrow> nat" where
  "utf8_len b =
     (let n = (of_char b :: nat)
      in if n < 128 then 1 else if n < 224 then 2 else if n < 240 then 3 else 4)"

fun decode_ignore :: "string \<Rightarrow> string" where
  "decode_ignore [] = []"
| "decode_ignore (b # bs) =
     (if utf8_len b \<le> Suc (length bs)
      then b # take (utf8_len b - 1) bs @ decode_ignore (drop (utf8_len b - 1) bs)
      else [])"

definition hash_password :: "(string \<Rightarrow> string) \<Rightarrow> string \<Rightarrow> string" where
  "hash_password pwd_hash password = pwd_hash (decode_ignore (take 72 password))"

subsection \<open>services/service.py\<close>

datatype error = ValueError string

definition get_user_by_email :: "state \<Rightarrow> string \<Rightarrow> ref option" where
  "get_user_by_email w e = find (\<lambda>u. email (user_objs w u) = e) (dict_values (users w))"

definition get_user_by_id :: "state \<Rightarrow> uuid \<Rightarrow> ref option" where
  "get_user_by_id w user_id = dict_get (users w) user_id"

text \<open>
  \<^verbatim>\<open>register_user\<close>: \<open>new_id\<close> is the identifier that \<^verbatim>\<open>uuid4()\<close> draws for the new user.
  The result is the raised \<^verbatim>\<open>ValueError\<close> or the reference of the new user, with the
  state the call leaves behind.
\<close>

definition register_user ::
  "(string \<Rightarrow> string) \<Rightarrow> uuid \<Rightarrow> string \<Rightarrow> string \<Rightarrow> string \<Rightarrow> string \<Rightarrow> float64 \<Rightarrow> state
     \<Rightarrow> (error + ref) \<times> state" where
  "register_user pwd_hash new_id name e password ut saldo_inicial w =
     (case get_user_by_email w e of
        Some _ \<Rightarrow>
          (Inl (ValueError (''El email '' @ e @ '' ya est'' @ [CHR 0xC3, CHR 0xA1] @ '' registrado.'')), w)
      | None \<Rightarrow>
          let ph = hash_password pwd_hash password;
              usr = User name e ph ut new_id saldo_inicial;
              r = next_ref w
          in (Inr r, w\<lparr>user_objs := (user_objs w)(r := usr), next_ref := Suc r,
                       users := dict_set (users w) (u_id usr) r\<rparr>))"

definition create_station :: "int \<Rightarrow> string \<Rightarrow> string \<Rightarrow> state \<Rightarrow> station \<times> state" where
  "create_station i n l w =
     (let st = Station i n l in (st, w\<lparr>stations := dict_set (stations w) i st\<rparr>))"

definition get_station :: "state \<Rightarrow> int \<Rightarrow> station option" where
  "get_station w station_id = dict_get (stations w) station_id"

definition list_stations :: "state \<Rightarrow> station list" where
  "list_stations w = dict_values (stations w)"

definition delete_station :: "int \<Rightarrow> state \<Rightarrow> bool \<times> state" where
  "delete_station station_id w =
     (if dict_contains (stations w) station_id
      then (True, w\<lparr>stations := dict_del (stations w) station_id\<rparr>)
      else (False, w))"

definition add_charger_to_station :: "int \<Rightarrow> int \<Rightarrow> string \<Rightarrow> state \<Rightarrow> ref option \<times> state" where
  "add_charger_to_station station_id charger_id charger_type w =
     (case get_station w station_id of
        None \<Rightarrow> (None, w)
      | Some st \<Rightarrow>
          let r = next_ref w;
              w1 = w\<lparr>charger_objs := (charger_objs w)(r := Charger charger_id charger_type),
                     next_ref := Suc r\<rparr>;
              w2 = w1\<lparr>stations := dict_set (stations w1) station_id (add_charger r st)\<rparr>
          in (Some r, w2\<lparr>chargers := dict_set (chargers w2) charger_id r\<rparr>))"

definition get_charger :: "state \<Rightarrow> int \<Rightarrow> ref option" where
  "get_charger w charger_id = dict_get (chargers w) charger_id"

definition list_chargers :: "state \<Rightarrow> ref list" where
  "list_chargers w = dict_values (chargers w)"

definition start_charging :: "datetime \<Rightarrow> uuid \<Rightarrow> int \<Rightarrow> state \<Rightarrow> ref option \<times> state" where
  "start_charging now user_id station_id w =
     (case get_user_by_id w user_id of
        None \<Rightarrow> (None, w)
      | Some u \<Rightarrow>
          (case get_station w station_id of
             None \<Rightarrow> (None, w)
           | Some st \<Rightarrow>
               (case get_available_chargers w st of
                  [] \<Rightarrow> (None, w)
                | c # _ \<Rightarrow>
                    (case start_session now u c w of
                       (None, w1) \<Rightarrow> (None, w1)
                     | (Some s, w1) \<Rightarrow>
                         (Some s,
                          w1\<lparr>sessions :=
                               dict_set (sessions w1) (u_id (user_objs w1 (s_user (session_objs w1 s)))) s\<rparr>)))))"

definition end_charging :: "datetime \<Rightarrow> uuid \<Rightarrow> state \<Rightarrow> bool \<times> state" where
  "end_charging now user_id w =
     (case get_user_by_id w user_id of
        None \<Rightarrow> (False, w)
      | Some u \<Rightarrow>
          let w1 = end_session now u w
          in (True,
              if dict_contains (sessions w1) user_id
              then w1\<lparr>sessions := dict_del (sessions w1) user_id\<rparr> else w1))"

definition get_user_sessions_history :: "state \<Rightarrow> uuid \<Rightarrow> ref list" where
  "get_user_sessions_history w user_id =
     (case get_user_by_id w user_id of None \<Rightarrow> [] | Some u \<Rightarrow> sessions_history (user_objs w u))"

definition recargar_saldo_usuario :: "uuid \<Rightarrow> float64 \<Rightarrow> state \<Rightarrow> bool \<times> state" where
  "recargar_saldo_usuario user_id cantidad w =
     (case get_user_by_id w user_id of
        None \<Rightarrow> (False, w)
      | Some u \<Rightarrow>
          (fst (recargar_saldo cantidad (user_objs w u)),
           w\<lparr>user_objs := (user_objs w)(u := snd (recargar_saldo cantidad (user_objs w u)))\<rparr>))"

definition programar_mantenimiento_preventivo ::
  "(string \<Rightarrow> datetime option) \<Rightarrow> datetime \<Rightarrow> int \<Rightarrow> int \<Rightarrow> string \<Rightarrow> string \<Rightarrow> string \<Rightarrow> state
     \<Rightarrow> maintenance \<times> state" where
  "programar_mantenimiento_preventivo fromisoformat now i station_id f t fr w =
     (let m = asignar_estacion station_id (PreventiveMaintenance fromisoformat now i f t fr);
          w1 = w\<lparr>maintenances := dict_set (maintenances w) i m\<rparr>
      in (programar m, w1\<lparr>maintenances := dict_set (maintenances w1) i (programar m)\<rparr>))"

definition programar_mantenimiento_correctivo ::
  "(string \<Rightarrow> datetime option) \<Rightarrow> datetime \<Rightarrow> int \<Rightarrow> int \<Rightarrow> string \<Rightarrow> string \<Rightarrow> string \<Rightarrow> state
     \<Rightarrow> maintenance \<times> state" where
  "programar_mantenimiento_correctivo fromisoformat now i station_id f t df w =
     (let m = asignar_estacion station_id (CorrectiveMaintenance fromisoformat now i f t df);
          w1 = w\<lparr>maintenances := dict_set (maintenances w) i m\<rparr>
      in (programar m, w1\<lparr>maintenances := dict_set (maintenances w1) i (programar m)\<rparr>))"

definition iniciar_mantenimiento :: "int \<Rightarrow> state \<Rightarrow> maintenance option \<times> state" where
  "iniciar_mantenimiento i w =
     (case dict_get (maintenances w) i of
        None \<Rightarrow> (None, w)
      | Some m \<Rightarrow> (Some (iniciar m), w\<lparr>maintenances := dict_set (maintenances w) i (iniciar m)\<rparr>))"

definition completar_mantenimiento :: "int \<Rightarrow> string \<Rightarrow> state \<Rightarrow> maintenance option \<times> state" where
  "completar_mantenimiento i n w =
     (case dict_get (maintenances w) i of
        None \<Rightarrow> (None, w)
      | Some m \<Rightarrow>
          (Some (marcar_completado n m),
           w\<lparr>maintenances := dict_set (maintenances w) i (marcar_completado n m)\<rparr>))"

text \<open>
  \<^verbatim>\<open>listar_mantenimientos(station_id=None)\<close> tests \<^verbatim>\<open>if station_id:\<close>, the truth value of
  an optional integer: \<^verbatim>\<open>None\<close> and \<^verbatim>\<open>0\<close> are false, every other integer is true.
\<close>

definition truthy :: "int option \<Rightarrow> bool" where
  "truthy x = (case x of None \<Rightarrow> False | Some n \<Rightarrow> n \<noteq> 0)"

definition listar_mantenimientos :: "int option \<Rightarrow> state \<Rightarrow> maintenance list" where
  "listar_mantenimientos station_id w =
     (if truthy station_id
      then filter (\<lambda>m. estacion_id m = station_id) (dict_values (maintenances w))
      else dict_values (maintenances w))"

definition get_mantenimiento :: "state \<Rightarrow> int \<Rightarrow> maintenance option" where
  "get_mantenimiento w i = dict_get (maintenances w) i"

subsection \<open>Calls in sequence\<close>

text \<open>
  The methods of \<^verbatim>\<open>User\<close> that touch the balance or the session, each called on the user
  at a given reference, and the run of a list of such calls.
\<close>

datatype user_call =
    Recargar float64
  | Descontar float64
  | StartSession datetime ref
  | EndSession datetime

fun call_user :: "ref \<Rightarrow> user_call \<Rightarrow> state \<Rightarrow> state" where
  "call_user u (Recargar a) w =
     w\<lparr>user_objs := (user_objs w)(u := snd (recargar_saldo a (user_objs w u)))\<rparr>"
| "call_user u (Descontar a) w =
     w\<lparr>user_objs := (user_objs w)(u := snd (descontar_saldo a (user_objs w u)))\<rparr>"
| "call_user u (StartSession now c) w = snd (start_session now u c w)"
| "call_user u (EndSession now) w = end_session now u w"

fun finite_amount :: "user_call \<Rightarrow> bool" where
  "finite_amount (Recargar a) = is_finite a"
| "finite_amount (Descontar a) = is_finite a"
| "finite_amount (StartSession now c) = True"
| "finite_amount (EndSession now) = True"

fun call_users :: "(ref \<times> user_call) list \<Rightarrow> state \<Rightarrow> state" where
  "call_users [] w = w"
| "call_users ((u, c) # cs) w = call_users cs (call_user u c w)"

text \<open>
  The state-changing operations of \<^verbatim>\<open>ChargingService\<close> as commands, \<open>exec\<close> the state a
  command leaves behind (its return value dropped), and \<open>run\<close> a list of commands. The
  Argon2 hash and the ISO date parser are the arguments \<open>pwd_hash\<close> and \<open>fromisoformat\<close>.
\<close>

datatype command =
    RegisterUser uuid string string string string float64
  | CreateStation int string string
  | DeleteStation int
  | AddChargerToStation int int string
  | StartCharging datetime uuid int
  | EndCharging datetime uuid
  | RecargarSaldoUsuario uuid float64
  | ProgramarPreventivo datetime int int string string string
  | ProgramarCorrectivo datetime int int string string string
  | IniciarMantenimiento int
  | CompletarMantenimiento int string

fun exec :: "(string \<Rightarrow> string) \<Rightarrow> (string \<Rightarrow> datetime option) \<Rightarrow> command \<Rightarrow> state \<Rightarrow> state" where
  "exec pwd_hash fromisoformat (RegisterUser new_id n e p ut s) w =
     snd (register_user pwd_hash new_id n e p ut s w)"
| "exec pwd_hash fromisoformat (CreateStation i n l) w = snd (create_station i n l w)"
| "exec pwd_hash fromisoformat (DeleteStation i) w = snd (delete_station i w)"
| "exec pwd_hash fromisoformat (AddChargerToStation i c t) w = snd (add_charger_to_station i c t w)"
| "exec pwd_hash fromisoformat (StartCharging now u i) w = snd (start_charging now u i w)"
| "exec pwd_hash fromisoformat (EndCharging now u) w = snd (end_charging now u w)"
| "exec pwd_hash fromisoformat (RecargarSaldoUsuario u a) w = snd (recargar_saldo_usuario u a w)"
| "exec pwd_hash fromisoformat (ProgramarPreventivo now i st f t fr) w =
     snd (programar_mantenimiento_preventivo fromisoformat now i st f t fr w)"
| "exec pwd_hash fromisoformat (ProgramarCorrectivo now i st f t df) w =
     snd (programar_mantenimiento_correctivo fromisoformat now i st f t df w)"
| "exec pwd_hash fromisoformat (IniciarMantenimiento i) w = snd (iniciar_mantenimiento i w)"
| "exec pwd_hash fromisoformat (CompletarMantenimiento i n) w = snd (completar_mantenimiento i n w)"

fun run :: "(string \<Rightarrow> string) \<Rightarrow> (string \<Rightarrow> datetime option) \<Rightarrow> command list \<Rightarrow> state \<Rightarrow> state" where
  "run pwd_hash fromisoformat [] w = w"
| "run pwd_hash fromisoformat (c # cs) w =
     run pwd_hash fromisoformat cs (exec pwd_hash fromisoformat c w)"

subsection \<open>The specification's duration, and an example state\<close>

text \<open>
  The duration as the specification words it: the floor of the whole elapsed time in
  seconds, from \<open>start_time\<close> to \<open>end_time\<close> if set and to \<open>now\<close> otherwise, divided by 60.
\<close>

definition spec_duration_minutes :: "datetime \<Rightarrow> session \<Rightarrow> int" where
  "spec_duration_minutes now s =
     (((case end_time s of Some e \<Rightarrow> e | None \<Rightarrow> now) - start_time s) div 1000000) div 60"

text \<open>
  The end-to-end scenario of the specification: user Ana, registered with a given
  balance, and station 1 with the single fast charger 101. \<open>demo_hash\<close> stands for the
  Argon2 hash and \<open>7\<close> for the drawn identifier. Ana is the object at reference 0 and
  the charger the object at reference 1. In \<open>demo_state\<close> the balance is 100.
\<close>

definition demo_hash :: "string \<Rightarrow> string" where
  "demo_hash p = ''$argon2id$'' @ p"

definition scenario :: "float64 \<Rightarrow> state" where
  "scenario saldo_inicial =
     snd (add_charger_to_station 1 101 ''rapido''
       (snd (create_station 1 ''Central'' ''Vigo''
         (snd (register_user demo_hash 7 ''Ana'' ''ana@example.com'' ''secret'' ''individual''
                saldo_inicial ChargingService)))))"

definition demo_state :: state where
  "demo_state = scenario (Finite 100)"

definition demo_charging :: state where
  "demo_charging = snd (start_charging 0 7 1 demo_state)"

text \<open>
  The same scenario with the balance 0.44999999999999996, the double
  \<open>2026619832316723 / 2 ^ 52\<close>, and Ana charging since 0.
\<close>

definition tight_charging :: state where
  "tight_charging = snd (start_charging 0 7 1 (scenario (Finite (2026619832316723 / 2 ^ 52))))"

text \<open>
  The scenario with a charger that is really occupied: the station reserves charger 101
  (\<^verbatim>\<open>Station.reserve_charger\<close>, status \<^verbatim>\<open>"ocupado"\<close>), the charger is stopped
  (\<^verbatim>\<open>Charger.stop_charge\<close>, status \<^verbatim>\<open>"disponible"\<close>), and Ana starts a session on it at
  0 (\<^verbatim>\<open>User.start_session\<close>, status \<^verbatim>\<open>"ocupado"\<close> again).
\<close>

definition released_state :: state where
  "released_state =
     (case get_station demo_state 1 of
        None \<Rightarrow> demo_state
      | Some st \<Rightarrow>
          (case reserve_charger st demo_state of
             (None, w) \<Rightarrow> w
           | (Some c, w) \<Rightarrow> w\<lparr>charger_objs := (charger_objs w)(c := stop_charge (charger_objs w c))\<rparr>))"

definition occupied_charging :: state where
  "occupied_charging = snd (start_session 0 0 1 released_state)"

text \<open>
  The scenario with a second station that registers another charger under the
  identifier 101, which the first station's charger already has.
\<close>

definition shared_id_state :: state where
  "shared_id_state =
     snd (add_charger_to_station 2 101 ''normal''
       (snd (create_station 2 ''Norte'' ''Vigo Norte'' demo_state)))"

section \<open>Properties\<close>

subsection \<open>Rounding to a double\<close>

lemma floor_rat_numeral: "\<lfloor>(numeral a :: rat) / numeral b\<rfloor> = numeral a div numeral b"
  using floor_divide_of_int_eq [of "numeral a" "numeral b", where ?'a = rat] by simp

lemmas float_eval =
  round64_def floor_log2_def round_half_even_def pow2_def Let_def ilog2.simps floor_rat_numeral

lemma pow2_pos: "0 < pow2 k"
  by (simp add: pow2_def)

lemma ilog2_bounds: "0 < n \<Longrightarrow> 2 ^ ilog2 n \<le> n \<and> n < 2 ^ Suc (ilog2 n)"
proof (induction n rule: ilog2.induct)
  case (1 n)
  show ?case
  proof (cases "n < 2")
    case True
    with "1.prems" have "n = 1" by simp
    then show ?thesis by (simp add: ilog2.simps)
  next
    case False
    then have pos: "0 < n div 2" by simp
    from "1.IH" [OF False pos]
    have ih: "2 ^ ilog2 (n div 2) \<le> n div 2" "n div 2 < 2 ^ Suc (ilog2 (n div 2))" by simp_all
    have eq: "ilog2 n = Suc (ilog2 (n div 2))" using False by (subst ilog2.simps) simp
    have "2 * 2 ^ ilog2 (n div 2) \<le> 2 * (n div 2)" using ih(1) by simp
    also have "\<dots> \<le> n" by simp
    finally have lo: "2 ^ ilog2 n \<le> n" by (simp add: eq)
    have "n < 2 * (n div 2) + 2" by presburger
    also have "\<dots> \<le> 2 * 2 ^ Suc (ilog2 (n div 2))" using ih(2) by simp
    finally have hi: "n < 2 ^ Suc (ilog2 n)" by (simp add: eq)
    from lo hi show ?thesis by simp
  qed
qed

lemma pow2_nat: "pow2 (int k) = 2 ^ k"
  by (simp add: pow2_def)

lemma pow2_Suc: "pow2 (k + 1) = 2 * pow2 k"
proof (cases "0 \<le> k")
  case True
  then show ?thesis by (simp add: pow2_def nat_add_distrib)
next
  case False
  then have "nat (- k) = Suc (nat (- (k + 1)))" by simp
  then show ?thesis using False by (simp add: pow2_def)
qed

lemma pow2_neg: "pow2 (- k) = 1 / pow2 k"
  by (simp add: pow2_def)

text \<open>
  \<open>floor_log2\<close> is the binary exponent: the power of two at or below its argument.
\<close>

lemma floor_log2_bounds:
  assumes "0 < a"
  shows "pow2 (floor_log2 a) \<le> a \<and> a < pow2 (floor_log2 a + 1)"
proof (cases "1 \<le> a")
  case True
  define n where "n = nat \<lfloor>a\<rfloor>"
  have n1: "0 < n" using True by (simp add: n_def)
  have fl: "floor_log2 a = int (ilog2 n)" using True by (simp add: floor_log2_def n_def)
  have na: "of_nat n \<le> a" using True by (simp add: n_def)
  have an: "a < of_nat n + 1"
  proof -
    have "a < of_int \<lfloor>a\<rfloor> + 1" by linarith
    moreover have "of_int \<lfloor>a\<rfloor> = (of_nat n :: rat)" using True by (simp add: n_def)
    ultimately show ?thesis by simp
  qed
  from ilog2_bounds [OF n1] have b: "2 ^ ilog2 n \<le> n" "Suc n \<le> 2 ^ Suc (ilog2 n)" by simp_all
  have r1: "(2 :: rat) ^ ilog2 n \<le> of_nat n"
    using b(1) by (metis of_nat_le_iff of_nat_numeral of_nat_power)
  have pe: "pow2 (floor_log2 a) = 2 ^ ilog2 n" by (simp add: fl pow2_nat)
  have lo: "pow2 (floor_log2 a) \<le> a" unfolding pe using r1 na by (rule order_trans)
  have r2: "(of_nat (Suc n) :: rat) \<le> 2 ^ Suc (ilog2 n)"
    using b(2) by (metis of_nat_le_iff of_nat_numeral of_nat_power)
  have "a < of_nat (Suc n)" using an by simp
  then have "a < 2 ^ Suc (ilog2 n)" using r2 by (rule less_le_trans)
  moreover have "pow2 (floor_log2 a + 1) = 2 ^ Suc (ilog2 n)" by (simp add: fl pow2_Suc pow2_nat)
  ultimately have hi: "a < pow2 (floor_log2 a + 1)" by simp
  from lo hi show ?thesis by simp
next
  case False
  define b where "b = 1 / a"
  define n where "n = nat \<lfloor>b\<rfloor>"
  define j where "j = int (ilog2 n)"
  have b1: "1 < b" using False assms by (simp add: b_def)
  have n1: "0 < n" using b1 by (simp add: n_def)
  have nb: "of_nat n \<le> b" using b1 by (simp add: n_def)
  have bn: "b < of_nat n + 1"
  proof -
    have "b < of_int \<lfloor>b\<rfloor> + 1" by linarith
    moreover have "of_int \<lfloor>b\<rfloor> = (of_nat n :: rat)" using b1 by (simp add: n_def)
    ultimately show ?thesis by simp
  qed
  from ilog2_bounds [OF n1] have c: "2 ^ ilog2 n \<le> n" "Suc n \<le> 2 ^ Suc (ilog2 n)" by simp_all
  have r1: "(2 :: rat) ^ ilog2 n \<le> of_nat n"
    using c(1) by (metis of_nat_le_iff of_nat_numeral of_nat_power)
  have pe: "pow2 j = 2 ^ ilog2 n" by (simp add: j_def pow2_nat)
  have lo: "pow2 j \<le> b" unfolding pe using r1 nb by (rule order_trans)
  have r2: "(of_nat (Suc n) :: rat) \<le> 2 ^ Suc (ilog2 n)"
    using c(2) by (metis of_nat_le_iff of_nat_numeral of_nat_power)
  have "b < of_nat (Suc n)" using bn by simp
  then have "b < 2 ^ Suc (ilog2 n)" using r2 by (rule less_le_trans)
  moreover have "pow2 (j + 1) = 2 ^ Suc (ilog2 n)" by (simp add: j_def pow2_Suc pow2_nat)
  ultimately have hi: "b < pow2 (j + 1)" by simp
  have pj: "0 < pow2 j" "0 < pow2 (j + 1)" by (rule pow2_pos)+
  have a_le: "a \<le> pow2 (- j)"
    using lo pj(1) assms by (simp add: pow2_neg b_def field_simps)
  have "1 / pow2 (j + 1) < a"
    using hi pj(2) assms by (simp add: b_def field_simps)
  then have a_gt: "pow2 (- (j + 1)) < a"
    by (simp only: pow2_neg [of "j + 1"])
  have fl: "floor_log2 a = (if pow2 (- j) \<le> a then - j else - j - 1)"
    using False by (simp add: floor_log2_def Let_def j_def n_def b_def)
  show ?thesis
  proof (cases "pow2 (- j) \<le> a")
    case True
    then have "floor_log2 a = - j" by (simp add: fl)
    moreover have "a < pow2 (- j + 1)"
      unfolding pow2_Suc [of "- j"] using a_le pow2_pos [of "- j"] by linarith
    ultimately show ?thesis using True by simp
  next
    case False
    then have f: "floor_log2 a = - j - 1" by (simp add: fl)
    have e1: "- (j + 1) = - j - 1" and e2: "- j - 1 + 1 = - j" by simp_all
    have "pow2 (- j - 1) \<le> a" using a_gt unfolding e1 by simp
    moreover have "a < pow2 (- j - 1 + 1)" unfolding e2 using False by simp
    ultimately show ?thesis by (simp add: f)
  qed
qed

lemma round_half_even_nonneg: "0 \<le> m \<Longrightarrow> 0 \<le> round_half_even m"
  by (auto simp: round_half_even_def Let_def)

lemma round_half_even_le_twice:
  assumes "0 \<le> m"
  shows "of_int (round_half_even m) \<le> 2 * m"
proof -
  have f0: "0 \<le> \<lfloor>m\<rfloor>" using assms by simp
  have fm: "of_int \<lfloor>m\<rfloor> \<le> m" by simp
  show ?thesis
  proof (cases "m - of_int \<lfloor>m\<rfloor> < 1 / 2")
    case True
    then have "round_half_even m = \<lfloor>m\<rfloor>" by (simp add: round_half_even_def Let_def)
    then show ?thesis using fm assms by linarith
  next
    case False
    then have up: "round_half_even m \<le> \<lfloor>m\<rfloor> + 1"
      by (simp add: round_half_even_def Let_def)
    from False have "of_int \<lfloor>m\<rfloor> + 1 / 2 \<le> m" by simp
    then have "of_int (\<lfloor>m\<rfloor> + 1) \<le> 2 * m - of_int \<lfloor>m\<rfloor>" by simp
    moreover have "(0::rat) \<le> of_int \<lfloor>m\<rfloor>" using f0 by simp
    ultimately have "of_int (\<lfloor>m\<rfloor> + 1) \<le> 2 * m" by linarith
    moreover have "(of_int (round_half_even m) :: rat) \<le> of_int (\<lfloor>m\<rfloor> + 1)"
      using up by (simp only: of_int_le_iff)
    ultimately show ?thesis by linarith
  qed
qed

lemma round_half_even_close: "\<bar>of_int (round_half_even m) - m\<bar> \<le> 1 / 2"
proof -
  have "of_int \<lfloor>m\<rfloor> \<le> m" and "m < of_int \<lfloor>m\<rfloor> + 1" by linarith+
  then show ?thesis
    by (auto simp: round_half_even_def Let_def abs_le_iff)
qed

lemma scaled_round_bounds:
  assumes "0 \<le> a"
  shows "0 \<le> of_int (round_half_even (a / pow2 e)) * pow2 e"
    and "of_int (round_half_even (a / pow2 e)) * pow2 e \<le> 2 * a"
proof -
  have p: "0 < pow2 e" by (rule pow2_pos)
  have m0: "0 \<le> a / pow2 e" using p assms by simp
  have "0 \<le> round_half_even (a / pow2 e)" using m0 by (rule round_half_even_nonneg)
  then show "0 \<le> of_int (round_half_even (a / pow2 e)) * pow2 e" using p by simp
  have "of_int (round_half_even (a / pow2 e)) \<le> 2 * (a / pow2 e)"
    using m0 by (rule round_half_even_le_twice)
  then show "of_int (round_half_even (a / pow2 e)) * pow2 e \<le> 2 * a"
    using p by (simp add: pos_le_divide_eq)
qed

lemma round64_pos:
  assumes "0 < x"
  shows "round64 x =
    (let v = of_int (round_half_even (x / pow2 (max (floor_log2 x - 52) (- 1074))))
               * pow2 (max (floor_log2 x - 52) (- 1074))
     in if pow2 1024 \<le> v then PInf else Finite v)"
  using assms by (simp add: round64_def Let_def)

text \<open>
  A positive rational is rounded to a multiple of the spacing \<open>2 ^ e\<close> that is at most
  half a spacing away, or to infinity.
\<close>

lemma round64_nearest:
  assumes "0 < x" and "round64 x = Finite v"
  shows "\<bar>v - x\<bar> \<le> pow2 (max (floor_log2 x - 52) (- 1074)) / 2"
proof -
  define e where "e = max (floor_log2 x - 52) (- 1074)"
  define n where "n = round_half_even (x / pow2 e)"
  have p: "0 < pow2 e" by (rule pow2_pos)
  have "v = of_int n * pow2 e"
    using assms round64_pos [OF assms(1)]
    by (simp add: Let_def e_def n_def split: if_splits)
  then have "v - x = (of_int n - x / pow2 e) * pow2 e"
    using p by (simp add: field_simps)
  then have "\<bar>v - x\<bar> = \<bar>of_int n - x / pow2 e\<bar> * pow2 e"
    using p by (simp add: abs_mult)
  also have "\<dots> \<le> (1 / 2) * pow2 e"
    unfolding n_def using p round_half_even_close [of "x / pow2 e"]
    by (intro mult_right_mono) simp_all
  finally show ?thesis by (simp add: e_def)
qed

lemma round64_neg: "round64 (- x) = fneg (round64 x)"
  by (auto simp: round64_def Let_def)

lemma round64_nonneg: "0 \<le> x \<Longrightarrow> fle (Finite 0) (round64 x)"
proof (cases "x = 0")
  case True
  then show ?thesis by (simp add: round64_def)
next
  case False
  assume "0 \<le> x"
  with False have "0 < x" by simp
  then have "0 \<le> of_int (round_half_even (x / pow2 (max (floor_log2 x - 52) (- 1074))))
               * pow2 (max (floor_log2 x - 52) (- 1074))"
    using scaled_round_bounds(1) [of x] by simp
  then show ?thesis using round64_pos [OF \<open>0 < x\<close>] by (simp add: Let_def)
qed

lemma round64_small:
  assumes "0 \<le> x" and "x < pow2 1023"
  shows "\<exists>v. round64 x = Finite v \<and> 0 \<le> v \<and> v \<le> 2 * x"
proof (cases "x = 0")
  case True
  then show ?thesis by (simp add: round64_def)
next
  case False
  with assms have pos: "0 < x" by simp
  define v where "v = of_int (round_half_even (x / pow2 (max (floor_log2 x - 52) (- 1074))))
               * pow2 (max (floor_log2 x - 52) (- 1074))"
  have b: "0 \<le> v" "v \<le> 2 * x"
    unfolding v_def using scaled_round_bounds [of x] pos by simp_all
  have "2 * pow2 1023 = pow2 1024" by (simp add: pow2_def)
  with b assms have "v < pow2 1024" by linarith
  then have "round64 x = Finite v"
    using round64_pos [OF pos] by (simp add: Let_def v_def)
  then show ?thesis using b by simp
qed

lemma tarifa_eval:
  "round64 (1 / 4) = Finite (1 / 4)"
  "round64 (3 / 10) = Finite (5404319552844595 / 2 ^ 54)"
  "round64 (1 / 2) = Finite (1 / 2)"
  by (simp_all add: float_eval split del: if_split)

lemma round64_examples:
  "round64 120 = Finite 120"
  "round64 10000000000000001 = Finite 10000000000000000"
  by (simp_all add: float_eval split del: if_split)

lemma fsub_self: "fsub (Finite x) (Finite x) = Finite 0"
  by (simp add: fsub_def round64_def)

lemma cost_examples:
  "fmul (fmul (float_of_int 10) (round64 (1 / 2))) (round64 (3 / 10)) = Finite (3 / 2)"
  "fmul (fmul (float_of_int 700) (round64 (1 / 2))) (round64 (3 / 10)) = Finite 105"
  "fmul (fmul (float_of_int 3) (round64 (1 / 2))) (round64 (3 / 10))
     = Finite (2026619832316723 / 2 ^ 52)"
  "fsub (Finite 100) (Finite (3 / 2)) = Finite (197 / 2)"
  "fadd (Finite 100) (Finite 20) = Finite 120"
  "fsub (Finite 120) (Finite (3 / 2)) = Finite (237 / 2)"
  "fsub (Finite (237 / 2)) (Finite (37 / 2)) = Finite 100"
  by (simp_all add: float_of_int_def fsub_def float_eval split del: if_split)

subsection \<open>The example states\<close>

lemma demo_state_eval:
  "next_ref demo_state = 2"
  "charger_objs demo_state 1 = \<lparr>c_id = 101, c_type = ''rapido'', status = ''available''\<rparr>"
  "user_objs demo_state 0 = \<lparr>u_id = 7, u_name = ''Ana'', email = ''ana@example.com'',
     password_hash = ''$argon2id$secret'', user_type = ''individual'',
     active_session = None, saldo = Finite 100, sessions_history = []\<rparr>"
  by code_simp+

lemma demo_charging_eval:
  "active_session (user_objs demo_charging 0) = Some 2"
  "user_type (user_objs demo_charging 0) = ''individual''"
  "saldo (user_objs demo_charging 0) = Finite 100"
  "sessions_history (user_objs demo_charging 0) = []"
  "s_charger (session_objs demo_charging 2) = Suc 0"
  "status (charger_objs demo_charging (Suc 0)) = ''available''"
  by code_simp+

lemma occupied_charging_eval:
  "active_session (user_objs occupied_charging 0) = Some 2"
  "user_type (user_objs occupied_charging 0) = ''individual''"
  "saldo (user_objs occupied_charging 0) = Finite 100"
  "sessions_history (user_objs occupied_charging 0) = []"
  "s_charger (session_objs occupied_charging 2) = Suc 0"
  "status (charger_objs occupied_charging (Suc 0)) = ''ocupado''"
  by code_simp+

lemma tight_charging_eval:
  "active_session (user_objs tight_charging 0) = Some 2"
  "user_type (user_objs tight_charging 0) = ''individual''"
  "saldo (user_objs tight_charging 0) = Finite (2026619832316723 / 2 ^ 52)"
  "s_charger (session_objs tight_charging 2) = Suc 0"
  by code_simp+

lemma demo_state_suc: 
  "charger_objs demo_state (Suc 0) = \<lparr>c_id = 101, c_type = ''rapido'', status = ''available''\<rparr>"
  by code_simp

lemma session_examples:
  "session_objs demo_charging 2 = \<lparr>s_user = 0, s_charger = 1, start_time = 0, end_time = None\<rparr>"
  "session_objs occupied_charging 2 = \<lparr>s_user = 0, s_charger = 1, start_time = 0, end_time = None\<rparr>"
  "session_objs tight_charging 2 = \<lparr>s_user = 0, s_charger = 1, start_time = 0, end_time = None\<rparr>"
  by code_simp+

lemma duration_examples:
  "get_duration 600000000 (session_end 600000000 (session_objs demo_charging 2)) = 10"
  "get_duration 42000000000 (session_end 42000000000 (session_objs demo_charging 2)) = 700"
  "get_duration 600000000 (session_end 600000000 (session_objs occupied_charging 2)) = 10"
  "get_duration 180000000 (session_end 180000000 (session_objs tight_charging 2)) = 3"
  by (simp_all add: session_examples get_duration_def session_end_def datetime_sub_def)

subsection \<open>Starting a charge\<close>

lemma start_session_keeps_available:
  "status (charger_objs w c) = ''available'' \<Longrightarrow>
     status (charger_objs (snd (start_session now u c w)) c) = ''available''"
  by (simp add: start_session_def start_charge_def Let_def)

text \<open>
  C1. In the scenario of the specification (Ana registered, station 1 holding the single
  charger 101 with the constructor's status \<^verbatim>\<open>"available"\<close>), \<open>start_charging\<close> succeeds
  with the new session 2, makes it Ana's \<open>active_session\<close> and the entry of the
  active-session index; but the charger's status is still \<^verbatim>\<open>"available"\<close>, not
  \<^verbatim>\<open>"ocupado"\<close>, and the station's available chargers are still \<open>[1]\<close>, not empty:
  \<open>start_charge\<close> only acts on the status \<^verbatim>\<open>"disponible"\<close>.
\<close>

theorem start_charging_leaves_charger_available:
  "fst (start_charging 1000 7 1 demo_state) = Some 2
   \<and> active_session (user_objs (snd (start_charging 1000 7 1 demo_state)) 0) = Some 2
   \<and> dict_get (sessions (snd (start_charging 1000 7 1 demo_state))) 7 = Some 2
   \<and> status (charger_objs demo_state 1) = ''available''
   \<and> status (charger_objs (snd (start_charging 1000 7 1 demo_state)) 1) = ''available''
   \<and> map_option (get_available_chargers (snd (start_charging 1000 7 1 demo_state)))
        (get_station (snd (start_charging 1000 7 1 demo_state)) 1) = Some [1]"
  by code_simp

text \<open>
  C2. Ana at a station with the two chargers 101 and 102: the first \<open>start_charging\<close>
  gives her session 3; a second \<open>start_charging\<close> while that session is active does not
  fail, it returns the new session 4 and puts it in place of session 3 both as her
  \<open>active_session\<close> and in the active-session index.
\<close>

theorem start_charging_replaces_active_session:
  "let w0 = snd (add_charger_to_station 1 102 ''normal'' demo_state);
       w1 = snd (start_charging 1000 7 1 w0);
       r = start_charging 5000 7 1 w1
   in fst (start_charging 1000 7 1 w0) = Some 3
    \<and> active_session (user_objs w1 0) = Some 3 \<and> dict_get (sessions w1) 7 = Some 3
    \<and> fst r = Some 4
    \<and> active_session (user_objs (snd r) 0) = Some 4 \<and> dict_get (sessions (snd r)) 7 = Some 4"
  by code_simp

subsection \<open>Duration of a session\<close>

lemma get_duration_nonneg: "0 \<le> get_duration now s"
  by (simp add: get_duration_def datetime_sub_def Let_def pos_imp_zdiv_nonneg_iff
      split: option.split)

lemma seconds_div_60_le: "(d mod 86400000000) div 1000000 div 60 \<le> (1439 :: int)"
proof -
  have "d mod 86400000000 < 86400000000" by simp
  then have "d mod 86400000000 \<le> 86399999999" by simp
  then have "(d mod 86400000000) div 1000000 \<le> 86399999999 div 1000000"
    by (rule zdiv_mono1) simp
  then have "(d mod 86400000000) div 1000000 \<le> 86399" by simp
  then have "(d mod 86400000000) div 1000000 div 60 \<le> 86399 div 60"
    by (rule zdiv_mono1) simp
  then show ?thesis by simp
qed

lemma get_duration_le: "get_duration now s \<le> 1439"
  by (simp add: get_duration_def datetime_sub_def Let_def seconds_div_60_le split: option.split)

lemma get_duration_within_a_day:
  assumes "0 \<le> (case end_time s of Some e \<Rightarrow> e | None \<Rightarrow> now) - start_time s"
      and "(case end_time s of Some e \<Rightarrow> e | None \<Rightarrow> now) - start_time s < 86400000000"
  shows "get_duration now s = spec_duration_minutes now s"
  using assms
  by (simp add: get_duration_def spec_duration_minutes_def datetime_sub_def Let_def
      split: option.splits)

text \<open>
  C3. \<open>get_duration\<close> reads the \<^verbatim>\<open>seconds\<close> field of the elapsed \<^verbatim>\<open>timedelta\<close>, which
  leaves the days out. For an open session started at 0 it returns 1439 minutes after
  86399 seconds and 0 minutes after 86400 seconds, where the floor of the elapsed
  seconds over 60 is 1440: it differs from the specified duration and it decreases.
\<close>

theorem get_duration_wraps_after_a_day:
  "get_duration 86399000000 (Session 0 0 1) = 1439
   \<and> get_duration 86400000000 (Session 0 0 1) = 0
   \<and> spec_duration_minutes 86400000000 (Session 0 0 1) = 1440"
  by (simp add: get_duration_def spec_duration_minutes_def Session_def datetime_sub_def)

subsection \<open>Ending a session\<close>

lemma coste_finite:
  assumes "0 \<le> d" and "d \<le> 1439"
  shows "\<exists>c. fmul (fmul (float_of_int d) (round64 0.5)) (get_tarifa u) = Finite c \<and> 0 \<le> c"
proof -
  have big: "(100000 :: rat) < pow2 1023" by (simp add: pow2_def)
  have d0: "(0::rat) \<le> of_int d" and d1: "(of_int d :: rat) \<le> 1439" using assms by simp_all
  from d1 big have "(of_int d :: rat) < pow2 1023" by linarith
  from round64_small [OF d0 this] obtain v1 where
    v1: "float_of_int d = Finite v1" "0 \<le> v1" "v1 \<le> 2 * of_int d"
    by (auto simp: float_of_int_def)
  have "0 \<le> v1 * (1 / 2)" using v1 by simp
  moreover have "v1 * (1 / 2) < pow2 1023" using v1 d1 big by linarith
  ultimately obtain v2 where
    v2: "round64 (v1 * (1 / 2)) = Finite v2" "0 \<le> v2" "v2 \<le> 2 * (v1 * (1 / 2))"
    using round64_small by blast
  have "get_tarifa u = Finite (1 / 4) \<or> get_tarifa u = Finite (5404319552844595 / 2 ^ 54)"
    by (simp add: get_tarifa_def tarifa_eval)
  then obtain t where t: "get_tarifa u = Finite t" "0 \<le> t" "t \<le> 1"
  proof
    assume "get_tarifa u = Finite (1 / 4)"
    then show ?thesis using that [of "1 / 4"] by simp
  next
    assume "get_tarifa u = Finite (5404319552844595 / 2 ^ 54)"
    then show ?thesis using that [of "5404319552844595 / 2 ^ 54"] by simp
  qed
  have "0 \<le> v2 * t" using v2 t by simp
  moreover have "v2 * t \<le> v2 * 1" using v2 t by (intro mult_left_mono) simp_all
  then have "v2 * t < pow2 1023" using v2 v1 d1 big by linarith
  ultimately obtain v3 where v3: "round64 (v2 * t) = Finite v3" "0 \<le> v3"
    using round64_small by blast
  have "fmul (float_of_int d) (round64 0.5) = Finite v2"
    using v2(1) by (simp add: v1 tarifa_eval)
  then have "fmul (fmul (float_of_int d) (round64 0.5)) (get_tarifa u) = Finite v3"
    using v3(1) by (simp add: t)
  then show ?thesis using v3(2) by blast
qed

lemma end_session_effect:
  assumes "active_session (user_objs w u) = Some s"
  shows "end_time (session_objs (end_session now u w) s) = Some now"
    and "saldo (user_objs (end_session now u w) u)
          = (if fle (fmul (fmul (float_of_int (get_duration now (session_end now (session_objs w s))))
                       (round64 0.5)) (get_tarifa (user_objs w u)))
                  (saldo (user_objs w u))
             then fsub (saldo (user_objs w u))
                    (fmul (fmul (float_of_int (get_duration now (session_end now (session_objs w s))))
                       (round64 0.5)) (get_tarifa (user_objs w u)))
             else saldo (user_objs w u))"
    and "sessions_history (user_objs (end_session now u w) u)
          = sessions_history (user_objs w u) @ [s]"
    and "charger_objs (end_session now u w) (s_charger (session_objs w s))
          = stop_charge (charger_objs w (s_charger (session_objs w s)))"
    and "active_session (user_objs (end_session now u w) u) = None"
  using assms
  by (simp_all add: end_session_def Let_def session_end_def descontar_saldo_def
      tiene_saldo_suficiente_def)

lemma stop_charge_status:
  "stop_charge c = c\<lparr>status := (if status c = ''ocupado'' then ''disponible'' else status c)\<rparr>"
  "status (stop_charge c) \<noteq> ''ocupado''"
  by (simp_all add: stop_charge_def)

text \<open>
  C4, as the code has it. For a user with an active session \<open>s\<close>, \<open>end_session\<close> stamps
  the session's end and computes in floating point: the energy is the duration in
  minutes times 0.5 and the cost is the energy times the tariff (the double nearest 0.25
  for \<^verbatim>\<open>empresa\<close>, nearest 0.30 otherwise), each product rounded to a double. It takes
  that rounded cost from the balance exactly when the balance is at least the rounded
  cost, the new balance being the rounded difference. In both cases it appends the
  session to the history, applies \<open>stop_charge\<close> to the session's charger (a charger
  that is \<^verbatim>\<open>"ocupado"\<close> becomes \<^verbatim>\<open>"disponible"\<close>, any other keeps its status, so the
  charger is not \<^verbatim>\<open>"ocupado"\<close> afterwards), and clears \<open>active_session\<close>.
\<close>

theorem end_session_closes_and_bills:
  assumes "active_session (user_objs w u) = Some s"
  shows "let w' = end_session now u w;
             usr = user_objs w u;
             duration = get_duration now (session_end now (session_objs w s));
             energy = fmul (float_of_int duration) (round64 0.5);
             cost = fmul energy (if user_type usr = ''empresa'' then round64 0.25 else round64 0.30);
             c = s_charger (session_objs w s)
         in end_time (session_objs w' s) = Some now
          \<and> saldo (user_objs w' u) = (if fle cost (saldo usr) then fsub (saldo usr) cost else saldo usr)
          \<and> sessions_history (user_objs w' u) = sessions_history usr @ [s]
          \<and> charger_objs w' c
              = (charger_objs w c)\<lparr>status :=
                   (if status (charger_objs w c) = ''ocupado'' then ''disponible''
                    else status (charger_objs w c))\<rparr>
          \<and> status (charger_objs w' c) \<noteq> ''ocupado''
          \<and> active_session (user_objs w' u) = None"
  unfolding Let_def
  using end_session_effect [OF assms, of now] stop_charge_status [of "charger_objs w (s_charger (session_objs w s))"]
  by (simp add: get_tarifa_def)

text \<open>
  The witness: Ana, charging since 0 with a balance of 100, ends after 10 minutes (cost
  1.5, paid, 98.5 left) and, in another run, after 700 minutes (cost 105, not paid); the
  session is closed both times. On the charger that is really occupied, the session's end
  turns \<^verbatim>\<open>"ocupado"\<close> into \<^verbatim>\<open>"disponible"\<close>.
\<close>

theorem end_session_closes_and_bills_witness:
  "active_session (user_objs demo_charging 0) = Some 2
   \<and> saldo (user_objs (end_session 600000000 0 demo_charging) 0) = Finite (197 / 2)
   \<and> sessions_history (user_objs (end_session 600000000 0 demo_charging) 0) = [2]
   \<and> active_session (user_objs (end_session 600000000 0 demo_charging) 0) = None
   \<and> end_time (session_objs (end_session 600000000 0 demo_charging) 2) = Some 600000000
   \<and> status (charger_objs (end_session 600000000 0 demo_charging) 1) = ''available''
   \<and> saldo (user_objs (end_session 42000000000 0 demo_charging) 0) = Finite 100
   \<and> sessions_history (user_objs (end_session 42000000000 0 demo_charging) 0) = [2]
   \<and> active_session (user_objs (end_session 42000000000 0 demo_charging) 0) = None
   \<and> active_session (user_objs occupied_charging 0) = Some 2
   \<and> status (charger_objs occupied_charging 1) = ''ocupado''
   \<and> status (charger_objs (end_session 600000000 0 occupied_charging) 1) = ''disponible''
   \<and> saldo (user_objs (end_session 600000000 0 occupied_charging) 0) = Finite (197 / 2)"
proof -
  note a = demo_charging_eval(1)
  note b = occupied_charging_eval(1)
  show ?thesis
    using a b end_session_closes_and_bills [OF a, of 600000000]
      end_session_closes_and_bills [OF a, of 42000000000]
      end_session_closes_and_bills [OF b, of 600000000]
    by (simp add: Let_def demo_charging_eval occupied_charging_eval duration_examples cost_examples)
qed

text \<open>
  The claim over exact numbers fails: with a balance of 0.44999999999999996 and a session
  of 3 minutes the exact cost 3 * 0.5 * 0.30 = 0.45 is more than the balance, yet the
  code debits: its cost is the product rounded to a double, which is the balance itself,
  and the balance ends at 0.
\<close>

theorem end_session_debits_rounded_cost_counterexample:
  "active_session (user_objs tight_charging 0) = Some 2
   \<and> user_type (user_objs tight_charging 0) = ''individual''
   \<and> get_duration 180000000 (session_end 180000000 (session_objs tight_charging 2)) = 3
   \<and> saldo (user_objs tight_charging 0) = Finite (2026619832316723 / 2 ^ 52)
   \<and> (2026619832316723 / 2 ^ 52 :: rat) < 3 * 0.5 * 0.30
   \<and> saldo (user_objs (end_session 180000000 0 tight_charging) 0) = Finite 0"
proof -
  have "saldo (user_objs (end_session 180000000 0 tight_charging) 0) = Finite 0"
    using end_session_effect(2) [OF tight_charging_eval(1), of 180000000]
    by (simp add: duration_examples tight_charging_eval get_tarifa_def cost_examples fsub_self)
  then show ?thesis
    by (simp add: tight_charging_eval duration_examples)
qed

subsection \<open>The balance\<close>

lemma fle_zero_not_flt: "fle (Finite 0) r \<Longrightarrow> \<not> flt r (Finite 0)"
  by (cases r) auto

lemma fadd_nonneg:
  "fle (Finite 0) s \<Longrightarrow> a = Finite y \<Longrightarrow> 0 < y \<Longrightarrow> fle (Finite 0) (fadd s a)"
  by (cases s) (auto intro: round64_nonneg)

lemma fsub_nonneg:
  "fle (Finite 0) s \<Longrightarrow> a = Finite y \<Longrightarrow> fle a s \<Longrightarrow> fle (Finite 0) (fsub s a)"
  by (cases s) (auto simp: fsub_def intro: round64_nonneg)

lemma round64_not_below: "0 \<le> x \<Longrightarrow> \<not> flt (round64 x) (Finite 0)"
  by (rule fle_zero_not_flt) (rule round64_nonneg)

lemma fadd_not_below:
  "\<not> flt s (Finite 0) \<Longrightarrow> \<not> fle a (Finite 0) \<Longrightarrow> \<not> flt (fadd s a) (Finite 0)"
  by (cases s; cases a) (auto simp: round64_not_below)

lemma fsub_not_below:
  "\<not> flt s (Finite 0) \<Longrightarrow> fle a s \<Longrightarrow> \<not> flt (fsub s a) (Finite 0)"
  by (cases s; cases a) (auto simp: fsub_def round64_not_below)

lemma recargar_nonneg:
  "fle (Finite 0) (saldo x) \<Longrightarrow> is_finite a \<Longrightarrow> fle (Finite 0) (saldo (snd (recargar_saldo a x)))"
  by (cases a) (auto simp: recargar_saldo_def intro: fadd_nonneg)

lemma descontar_nonneg:
  "fle (Finite 0) (saldo x) \<Longrightarrow> is_finite a \<Longrightarrow> fle (Finite 0) (saldo (snd (descontar_saldo a x)))"
  by (cases a) (auto simp: descontar_saldo_def tiene_saldo_suficiente_def intro: fsub_nonneg)

lemma recargar_not_below:
  "\<not> flt (saldo x) (Finite 0) \<Longrightarrow> \<not> flt (saldo (snd (recargar_saldo a x))) (Finite 0)"
  by (simp add: recargar_saldo_def fadd_not_below)

lemma descontar_not_below:
  "\<not> flt (saldo x) (Finite 0) \<Longrightarrow> \<not> flt (saldo (snd (descontar_saldo a x))) (Finite 0)"
  by (simp add: descontar_saldo_def tiene_saldo_suficiente_def fsub_not_below)

lemma saldo_start_session:
  "saldo (user_objs (snd (start_session now v c w)) u) = saldo (user_objs w u)"
  by (simp add: start_session_def Let_def)

lemma saldo_end_session_other:
  "v \<noteq> u \<Longrightarrow> saldo (user_objs (end_session now v w) u) = saldo (user_objs w u)"
  by (simp add: end_session_def Let_def split: option.split)

lemma saldo_end_session_self:
  "active_session (user_objs w u) = Some s \<Longrightarrow>
     saldo (user_objs (end_session now u w) u)
       = saldo (snd (descontar_saldo
           (fmul (fmul (float_of_int (get_duration now (session_end now (session_objs w s))))
              (round64 0.5)) (get_tarifa (user_objs w u)))
           (user_objs w u)))"
  by (simp add: end_session_def Let_def)

lemma end_session_nonneg:
  assumes "fle (Finite 0) (saldo (user_objs w u))"
  shows "fle (Finite 0) (saldo (user_objs (end_session now u w) u))"
proof (cases "active_session (user_objs w u)")
  case None
  then show ?thesis using assms by (simp add: end_session_def)
next
  case (Some s)
  obtain c where "fmul (fmul (float_of_int (get_duration now (session_end now (session_objs w s))))
              (round64 0.5)) (get_tarifa (user_objs w u)) = Finite c"
    using coste_finite [OF get_duration_nonneg get_duration_le] by blast
  then show ?thesis
    using assms by (simp add: saldo_end_session_self [OF Some] descontar_nonneg)
qed

lemma end_session_not_below:
  assumes "\<not> flt (saldo (user_objs w u)) (Finite 0)"
  shows "\<not> flt (saldo (user_objs (end_session now u w) u)) (Finite 0)"
proof (cases "active_session (user_objs w u)")
  case None
  then show ?thesis using assms by (simp add: end_session_def)
next
  case (Some s)
  show ?thesis
    using assms by (simp add: saldo_end_session_self [OF Some] descontar_not_below)
qed

lemma call_user_nonneg:
  "fle (Finite 0) (saldo (user_objs w u)) \<Longrightarrow> finite_amount c \<Longrightarrow>
     fle (Finite 0) (saldo (user_objs (call_user v c w) u))"
  by (cases c; cases "v = u")
     (simp_all add: recargar_nonneg descontar_nonneg saldo_start_session saldo_end_session_other
        end_session_nonneg)

lemma call_user_not_below:
  "\<not> flt (saldo (user_objs w u)) (Finite 0) \<Longrightarrow>
     \<not> flt (saldo (user_objs (call_user v c w) u)) (Finite 0)"
  by (cases c; cases "v = u")
     (simp_all add: recargar_not_below descontar_not_below saldo_start_session
        saldo_end_session_other end_session_not_below)

lemma call_users_nonneg:
  "fle (Finite 0) (saldo (user_objs w u)) \<Longrightarrow> list_all (\<lambda>c. finite_amount (snd c)) cs \<Longrightarrow>
     fle (Finite 0) (saldo (user_objs (call_users cs w) u))"
proof (induction cs arbitrary: w)
  case Nil
  then show ?case by simp
next
  case (Cons a cs)
  obtain v c where a: "a = (v, c)" by (cases a)
  from Cons.prems have "fle (Finite 0) (saldo (user_objs (call_user v c w) u))"
    by (simp add: a call_user_nonneg)
  moreover from Cons.prems have "list_all (\<lambda>c. finite_amount (snd c)) cs" by simp
  ultimately show ?case unfolding a by (simp add: Cons.IH)
qed

lemma call_users_not_below:
  "\<not> flt (saldo (user_objs w u)) (Finite 0) \<Longrightarrow>
     \<not> flt (saldo (user_objs (call_users cs w) u)) (Finite 0)"
proof (induction cs arbitrary: w)
  case Nil
  then show ?case by simp
next
  case (Cons a cs)
  obtain v c where a: "a = (v, c)" by (cases a)
  from Cons.prems have "\<not> flt (saldo (user_objs (call_user v c w) u)) (Finite 0)"
    by (rule call_user_not_below)
  then show ?case unfolding a by (simp add: Cons.IH)
qed

text \<open>
  C5. A user whose balance is not negative keeps a balance that is not negative through
  every sequence of \<open>recargar_saldo\<close>, \<open>descontar_saldo\<close>, \<open>start_session\<close> and
  \<open>end_session\<close> calls, on that user or on any other, whose amounts are finite doubles;
  and whatever the amounts are (\<^verbatim>\<open>inf\<close> and \<^verbatim>\<open>nan\<close> included), a balance that is not
  below zero is never driven below zero.
\<close>

theorem balance_never_negative:
  "(fle (Finite 0) (saldo (user_objs w u)) \<and> list_all (\<lambda>c. finite_amount (snd c)) cs \<longrightarrow>
      fle (Finite 0) (saldo (user_objs (call_users cs w) u)))
   \<and> (\<not> flt (saldo (user_objs w u)) (Finite 0) \<longrightarrow>
      \<not> flt (saldo (user_objs (call_users cs w) u)) (Finite 0))"
  using call_users_nonneg [of w u cs] call_users_not_below [of w u cs] by blast

theorem balance_never_negative_witness:
  "fle (Finite 0) (saldo (user_objs demo_state 0))
   \<and> list_all (\<lambda>c. finite_amount (snd c))
        [(0, Recargar (Finite 20)), (0, StartSession 0 1), (0, EndSession 600000000),
         (0, Descontar (Finite 500)), (0, Descontar (Finite (37 / 2))), (0, Recargar (Finite (- 3)))]
   \<and> saldo (user_objs (call_users
        [(0, Recargar (Finite 20)), (0, StartSession 0 1), (0, EndSession 600000000),
         (0, Descontar (Finite 500)), (0, Descontar (Finite (37 / 2))), (0, Recargar (Finite (- 3)))]
        demo_state) 0) = Finite 100
   \<and> fle (Finite 0) (saldo (user_objs (call_users
        [(0, Recargar (Finite 20)), (0, StartSession 0 1), (0, EndSession 600000000),
         (0, Descontar (Finite 500)), (0, Descontar (Finite (37 / 2))), (0, Recargar (Finite (- 3)))]
        demo_state) 0))
   \<and> \<not> flt (saldo (user_objs demo_state 0)) (Finite 0)
   \<and> saldo (user_objs (call_users [(0, Recargar NaN)] demo_state) 0) = NaN
   \<and> \<not> flt (saldo (user_objs (call_users [(0, Recargar NaN)] demo_state) 0)) (Finite 0)"
proof -
  let ?cs = "[(0, Recargar (Finite 20)), (0, StartSession 0 1), (0, EndSession 600000000),
         (0, Descontar (Finite 500)), (0, Descontar (Finite (37 / 2))), (0, Recargar (Finite (- 3)))]"
  have h: "fle (Finite 0) (saldo (user_objs demo_state 0))
           \<and> list_all (\<lambda>c. finite_amount (snd c)) ?cs"
    by (simp add: demo_state_eval)
  have g: "\<not> flt (saldo (user_objs demo_state 0)) (Finite 0)"
    by (simp add: demo_state_eval)
  have e: "saldo (user_objs (call_users ?cs demo_state) 0) = Finite 100"
    by (simp add: demo_state_eval demo_state_suc recargar_saldo_def descontar_saldo_def
        tiene_saldo_suficiente_def start_session_def start_charge_def stop_charge_def
        end_session_def session_end_def Session_def get_duration_def datetime_sub_def
        get_tarifa_def Let_def cost_examples round64_examples)
  have n: "saldo (user_objs (call_users [(0, Recargar NaN)] demo_state) 0) = NaN"
    by (simp add: demo_state_eval recargar_saldo_def)
  note t1 = balance_never_negative [of demo_state 0 ?cs, THEN conjunct1, rule_format, OF h]
  note t2 = balance_never_negative [of demo_state 0 "[(0, Recargar NaN)]", THEN conjunct2,
      rule_format, OF g]
  show ?thesis using h g e n t1 t2 by simp
qed

subsection \<open>The charger\<close>

text \<open>
  C6. For a charger whose status is available (the constructor's default
  \<^verbatim>\<open>"available"\<close>, or the \<^verbatim>\<open>"disponible"\<close> that \<open>start_charge\<close> tests), \<open>start_charge\<close>
  followed by \<open>stop_charge\<close> gives the status it started from, and \<open>stop_charge\<close> alone
  changes nothing.
\<close>

theorem charger_start_stop_available:
  assumes "status c = ''available'' \<or> status c = ''disponible''"
  shows "status (stop_charge (start_charge c)) = status c \<and> stop_charge c = c"
  using assms by (auto simp: start_charge_def stop_charge_def)

theorem charger_start_stop_available_witness:
  "status (stop_charge (start_charge (Charger 101 ''normal''))) = ''available''
   \<and> stop_charge (Charger 101 ''normal'') = Charger 101 ''normal''
   \<and> status (stop_charge (start_charge ((Charger 102 ''normal'')\<lparr>status := ''disponible''\<rparr>)))
       = ''disponible''"
  using charger_start_stop_available [of "Charger 101 ''normal''"]
        charger_start_stop_available [of "(Charger 102 ''normal'')\<lparr>status := ''disponible''\<rparr>"]
  by (simp add: Charger_def)

subsection \<open>Registration\<close>

lemma update_fresh_key: "k \<notin> fst ` set al \<Longrightarrow> AList.update k v al = al @ [(k, v)]"
  by (induction al) auto

text \<open>
  C7. When some stored user has the given email, \<open>register_user\<close> raises the
  \<^verbatim>\<open>ValueError\<close> (a result \<open>Inl\<close>, which no sentinel \<open>None\<close> and no user is) and leaves
  the whole state as it was. When no stored user has it, and the drawn identifier is not
  yet a key of the user dictionary, it returns a new user object, adds exactly one entry
  for it to the dictionary, and the object's \<open>password_hash\<close> is \<open>hash_password\<close> of
  the given password.
\<close>

theorem register_user_spec:
  "((\<exists>u \<in> set (dict_values (users w)). email (user_objs w u) = e) \<longrightarrow>
      register_user pwd_hash new_id n e p ut s w =
        (Inl (ValueError (''El email '' @ e @ '' ya est'' @ [CHR 0xC3, CHR 0xA1] @ '' registrado.'')), w))
   \<and> ((\<forall>u \<in> set (dict_values (users w)). email (user_objs w u) \<noteq> e)
        \<and> \<not> dict_contains (users w) new_id \<longrightarrow>
      register_user pwd_hash new_id n e p ut s w =
        (Inr (next_ref w),
         w\<lparr>user_objs := (user_objs w)(next_ref w := User n e (hash_password pwd_hash p) ut new_id s),
           next_ref := Suc (next_ref w),
           users := users w @ [(new_id, next_ref w)]\<rparr>)
      \<and> password_hash (user_objs (snd (register_user pwd_hash new_id n e p ut s w)) (next_ref w))
          = hash_password pwd_hash p)"
proof (intro conjI impI)
  assume "\<exists>u \<in> set (dict_values (users w)). email (user_objs w u) = e"
  then have "get_user_by_email w e \<noteq> None"
    by (auto simp: get_user_by_email_def find_None_iff)
  then show "register_user pwd_hash new_id n e p ut s w =
        (Inl (ValueError (''El email '' @ e @ '' ya est'' @ [CHR 0xC3, CHR 0xA1] @ '' registrado.'')), w)"
    by (auto simp: register_user_def)
next
  assume a: "(\<forall>u \<in> set (dict_values (users w)). email (user_objs w u) \<noteq> e)
        \<and> \<not> dict_contains (users w) new_id"
  then have none: "get_user_by_email w e = None"
    by (simp add: get_user_by_email_def find_None_iff)
  from a have fresh: "new_id \<notin> fst ` set (users w)"
    by (simp add: dict_contains_def)
  show eq: "register_user pwd_hash new_id n e p ut s w =
        (Inr (next_ref w),
         w\<lparr>user_objs := (user_objs w)(next_ref w := User n e (hash_password pwd_hash p) ut new_id s),
           next_ref := Suc (next_ref w),
           users := users w @ [(new_id, next_ref w)]\<rparr>)"
    by (simp add: register_user_def none Let_def dict_set_def update_fresh_key [OF fresh] User_def)
  show "password_hash (user_objs (snd (register_user pwd_hash new_id n e p ut s w)) (next_ref w))
          = hash_password pwd_hash p"
    by (simp add: eq User_def)
qed

theorem register_user_spec_witness:
  "get_user_by_email demo_state ''ana@example.com'' = Some 0
   \<and> register_user demo_hash 8 ''Ana2'' ''ana@example.com'' ''other'' ''empresa'' (Finite 50) demo_state
       = (Inl (ValueError (''El email ana@example.com ya est'' @ [CHR 0xC3, CHR 0xA1] @ '' registrado.'')),
          demo_state)
   \<and> get_user_by_email demo_state ''luis@example.com'' = None
   \<and> \<not> dict_contains (users demo_state) 8
   \<and> fst (register_user demo_hash 8 ''Luis'' ''luis@example.com'' ''other'' ''empresa'' (Finite 50) demo_state)
       = Inr 2
   \<and> users (snd (register_user demo_hash 8 ''Luis'' ''luis@example.com'' ''other'' ''empresa'' (Finite 50) demo_state))
       = [(7, 0), (8, 2)]
   \<and> password_hash (user_objs (snd (register_user demo_hash 8 ''Luis'' ''luis@example.com'' ''other''
        ''empresa'' (Finite 50) demo_state)) 2) = ''$argon2id$other''"
proof -
  have u: "users demo_state = [(7, 0)]" by code_simp
  have n: "next_ref demo_state = 2" by code_simp
  have m: "email (user_objs demo_state 0) = ''ana@example.com''" by code_simp
  have h: "hash_password demo_hash ''other'' = ''$argon2id$other''" by code_simp
  have h1: "\<exists>u \<in> set (dict_values (users demo_state)). email (user_objs demo_state u) = ''ana@example.com''"
    by (simp add: u m dict_values_def)
  have h2: "(\<forall>u \<in> set (dict_values (users demo_state)). email (user_objs demo_state u) \<noteq> ''luis@example.com'')
        \<and> \<not> dict_contains (users demo_state) 8"
    by (simp add: u m dict_values_def dict_contains_def)
  note dup = register_user_spec [of demo_state "''ana@example.com''" demo_hash 8 "''Ana2''" "''other''"
      "''empresa''" "Finite 50", THEN conjunct1, rule_format, OF h1]
  note new = register_user_spec [of demo_state "''luis@example.com''" demo_hash 8 "''Luis''" "''other''"
      "''empresa''" "Finite 50", THEN conjunct2, rule_format, OF h2]
  have g: "get_user_by_email demo_state ''ana@example.com'' = Some 0"
          "get_user_by_email demo_state ''luis@example.com'' = None"
    by code_simp+
  show ?thesis
    using h2 dup new by (simp add: g u n h User_def)
qed

subsection \<open>Chargers and the deletion of their station\<close>

lemma chargers_start_charging: "chargers (snd (start_charging now u i w)) = chargers w"
  by (simp add: start_charging_def start_session_def Let_def
      split: option.split list.split prod.split)

lemma chargers_end_charging: "chargers (snd (end_charging now u w)) = chargers w"
  by (simp add: end_charging_def end_session_def Let_def split: option.split)

lemma chargers_exec_other:
  "\<forall>i t. cmd \<noteq> AddChargerToStation i cid t \<Longrightarrow>
     get_charger (exec pwd_hash fromisoformat cmd w) cid = get_charger w cid"
  by (cases cmd)
     (simp_all add: chargers_start_charging chargers_end_charging get_charger_def dict_get_def
        dict_set_def register_user_def create_station_def delete_station_def
        add_charger_to_station_def recargar_saldo_usuario_def
        programar_mantenimiento_preventivo_def programar_mantenimiento_correctivo_def
        iniciar_mantenimiento_def completar_mantenimiento_def update_conv' Let_def
        split: option.split)

lemma chargers_run_same:
  "\<forall>i t. AddChargerToStation i cid t \<notin> set cmds \<Longrightarrow>
     get_charger (run pwd_hash fromisoformat cmds w) cid = get_charger w cid"
proof (induction cmds arbitrary: w)
  case Nil
  then show ?case by simp
next
  case (Cons c cs)
  then have "\<forall>i t. c \<noteq> AddChargerToStation i cid t" by auto
  then have "get_charger (exec pwd_hash fromisoformat c w) cid = get_charger w cid"
    by (rule chargers_exec_other)
  moreover from Cons.prems have "\<forall>i t. AddChargerToStation i cid t \<notin> set cs" by auto
  ultimately show ?case using Cons.IH by simp
qed

lemma delete_station_effect:
  assumes "get_station w sid = Some st"
  shows "fst (delete_station sid w) = True"
    and "get_station (snd (delete_station sid w)) sid = None"
    and "chargers (snd (delete_station sid w)) = chargers w"
    and "charger_objs (snd (delete_station sid w)) = charger_objs w"
proof -
  from assms have "dict_contains (stations w) sid"
    by (auto simp: get_station_def dict_get_def dict_contains_def dest: map_of_SomeD
        intro: image_eqI [where x = "(sid, st)"])
  then show "fst (delete_station sid w) = True"
    and "get_station (snd (delete_station sid w)) sid = None"
    and "chargers (snd (delete_station sid w)) = chargers w"
    and "charger_objs (snd (delete_station sid w)) = charger_objs w"
    by (simp_all add: delete_station_def get_station_def dict_get_def dict_del_def delete_conv')
qed

text \<open>
  C8, as the code has it. Take a station of the registry and one of its chargers, which
  the global charger index resolves under some identifier. The charger stays retrievable
  under that identifier through every sequence of service operations that does not
  register another charger under the same identifier, deletions of the station included.
  \<open>delete_station\<close> on the station succeeds and removes the station, and leaves the
  charger index and the charger objects as they were: the charger is still retrievable
  and still listed.
\<close>

theorem station_chargers_outlive_station:
  assumes "get_station w sid = Some st"
      and "r \<in> set (st_chargers st)"
      and "get_charger w cid = Some r"
  shows "((\<forall>i t. AddChargerToStation i cid t \<notin> set cmds) \<longrightarrow>
            get_charger (run pwd_hash fromisoformat cmds w) cid = Some r)
         \<and> fst (delete_station sid w) = True
         \<and> get_station (snd (delete_station sid w)) sid = None
         \<and> get_charger (snd (delete_station sid w)) cid = Some r
         \<and> charger_objs (snd (delete_station sid w)) r = charger_objs w r
         \<and> list_chargers (snd (delete_station sid w)) = list_chargers w"
proof -
  note d = delete_station_effect [OF assms(1)]
  have "get_charger (snd (delete_station sid w)) cid = Some r"
    using assms(3) by (simp add: get_charger_def d)
  moreover have "list_chargers (snd (delete_station sid w)) = list_chargers w"
    by (simp add: list_chargers_def d)
  ultimately show ?thesis
    using assms(3) d by (simp add: chargers_run_same)
qed

theorem station_chargers_outlive_station_witness:
  "get_station demo_state 1
     = Some \<lparr>st_id = 1, st_name = ''Central'', location = ''Vigo'', st_chargers = [1]\<rparr>
   \<and> 1 \<in> set (st_chargers \<lparr>st_id = 1, st_name = ''Central'', location = ''Vigo'', st_chargers = [1]\<rparr>)
   \<and> get_charger demo_state 101 = Some 1
   \<and> (\<forall>i t. AddChargerToStation i 101 t
         \<notin> set [StartCharging 0 7 1, DeleteStation 1, EndCharging 600000000 7])
   \<and> get_charger (run demo_hash (\<lambda>_. None)
        [StartCharging 0 7 1, DeleteStation 1, EndCharging 600000000 7] demo_state) 101 = Some 1
   \<and> fst (delete_station 1 demo_state) = True
   \<and> get_station (snd (delete_station 1 demo_state)) 1 = None
   \<and> get_charger (snd (delete_station 1 demo_state)) 101 = Some 1
   \<and> list_chargers (snd (delete_station 1 demo_state)) = [1]"
proof -
  have s: "get_station demo_state 1
     = Some \<lparr>st_id = 1, st_name = ''Central'', location = ''Vigo'', st_chargers = [1]\<rparr>"
    by code_simp
  have m: "1 \<in> set (st_chargers \<lparr>st_id = 1, st_name = ''Central'', location = ''Vigo'', st_chargers = [1]\<rparr>)"
    by simp
  have g: "get_charger demo_state 101 = Some 1" by code_simp
  have l: "list_chargers demo_state = [1]" by code_simp
  show ?thesis
    using s m g l
      station_chargers_outlive_station [OF s m g, of
        "[StartCharging 0 7 1, DeleteStation 1, EndCharging 600000000 7]" demo_hash "\<lambda>_. None"]
    by simp
qed

text \<open>
  The claim as stated fails in both halves. Station 1 of the scenario holds charger 101
  (the object at reference 1); \<open>delete_station\<close> succeeds and the station is gone, yet
  the global charger index still returns the charger. And once a second station
  registers a charger under the same identifier 101, the index returns that one (the
  object at reference 2): the charger of station 1 is no longer retrievable although its
  station was never deleted.
\<close>

theorem delete_station_keeps_chargers_counterexample:
  "map_option st_chargers (get_station demo_state 1) = Some [1]
   \<and> get_charger demo_state 101 = Some 1
   \<and> fst (delete_station 1 demo_state) = True
   \<and> get_station (snd (delete_station 1 demo_state)) 1 = None
   \<and> get_charger (snd (delete_station 1 demo_state)) 101 = Some 1
   \<and> map_option st_chargers (get_station shared_id_state 1) = Some [1]
   \<and> c_id (charger_objs shared_id_state 1) = 101
   \<and> get_charger shared_id_state 101 = Some 2"
  by code_simp

subsection \<open>Recharging\<close>

lemma flt_pos_not_le: "flt (Finite 0) a \<Longrightarrow> \<not> fle a (Finite 0)"
  by (cases a) auto

text \<open>
  C9, as the code has it. \<open>recargar_saldo\<close> with an amount that is not positive returns
  false and leaves the user as it was; with a positive amount it returns true and the
  new balance is the floating-point sum of the balance and the amount: for finite
  doubles, their exact sum rounded to a double.
\<close>

theorem recargar_saldo_spec:
  "(fle a (Finite 0) \<longrightarrow> recargar_saldo a u = (False, u))
   \<and> (flt (Finite 0) a \<longrightarrow>
        fst (recargar_saldo a u) = True
        \<and> saldo (snd (recargar_saldo a u)) = fadd (saldo u) a
        \<and> (\<forall>x y. saldo u = Finite x \<and> a = Finite y \<longrightarrow>
              saldo (snd (recargar_saldo a u)) = round64 (x + y)))"
  by (auto simp: recargar_saldo_def dest: flt_pos_not_le)

theorem recargar_saldo_spec_witness:
  "fle (Finite (- 5)) (Finite 0)
   \<and> recargar_saldo (Finite (- 5)) (User ''Ana'' ''ana@example.com'' ''h'' ''individual'' 7 (Finite 100))
     = (False, User ''Ana'' ''ana@example.com'' ''h'' ''individual'' 7 (Finite 100))
   \<and> recargar_saldo (Finite 0) (User ''Ana'' ''ana@example.com'' ''h'' ''individual'' 7 (Finite 100))
     = (False, User ''Ana'' ''ana@example.com'' ''h'' ''individual'' 7 (Finite 100))
   \<and> flt (Finite 0) (Finite 20)
   \<and> fst (recargar_saldo (Finite 20)
        (User ''Ana'' ''ana@example.com'' ''h'' ''individual'' 7 (Finite 100))) = True
   \<and> saldo (snd (recargar_saldo (Finite 20)
        (User ''Ana'' ''ana@example.com'' ''h'' ''individual'' 7 (Finite 100)))) = Finite 120"
proof -
  let ?u = "User ''Ana'' ''ana@example.com'' ''h'' ''individual'' 7 (Finite 100)"
  have s: "saldo ?u = Finite 100" by (simp add: User_def)
  have n: "fle (Finite (- 5)) (Finite 0)" "fle (Finite 0) (Finite 0)" by simp_all
  have p: "flt (Finite 0) (Finite 20)" by simp
  note a = recargar_saldo_spec [of "Finite (- 5)" ?u, THEN conjunct1, rule_format, OF n(1)]
  note b = recargar_saldo_spec [of "Finite 0" ?u, THEN conjunct1, rule_format, OF n(2)]
  note c = recargar_saldo_spec [of "Finite 20" ?u, THEN conjunct2, rule_format, OF p]
  from c have c1: "fst (recargar_saldo (Finite 20) ?u) = True"
    and c2: "saldo (snd (recargar_saldo (Finite 20) ?u)) = fadd (saldo ?u) (Finite 20)"
    by blast+
  have "fadd (saldo ?u) (Finite 20) = Finite 120"
    by (simp add: s round64_examples)
  with n p a b c1 c2 show ?thesis by simp
qed

text \<open>
  The claim over exact numbers fails: adding 1 to a balance of 10000000000000000 returns
  true and leaves the balance at 10000000000000000, not at 10000000000000001.
\<close>

theorem recargar_saldo_rounds_counterexample:
  "flt (Finite 0) (Finite 1)
   \<and> fst (recargar_saldo (Finite 1)
        (User ''Ana'' ''ana@example.com'' ''h'' ''individual'' 7 (Finite 10000000000000000))) = True
   \<and> saldo (snd (recargar_saldo (Finite 1)
        (User ''Ana'' ''ana@example.com'' ''h'' ''individual'' 7 (Finite 10000000000000000))))
      = Finite 10000000000000000
   \<and> saldo (snd (recargar_saldo (Finite 1)
        (User ''Ana'' ''ana@example.com'' ''h'' ''individual'' 7 (Finite 10000000000000000))))
      \<noteq> Finite (10000000000000000 + 1)"
  by (simp add: recargar_saldo_def User_def round64_examples)

subsection \<open>Listing maintenances\<close>

text \<open>
  C10. Listing the maintenances with the station filter 0 returns every maintenance of
  the registry, exactly as listing with no filter does: the filter 0 is not applied.
\<close>

theorem listar_mantenimientos_station_zero:
  "listar_mantenimientos (Some 0) w = dict_values (maintenances w)
   \<and> listar_mantenimientos (Some 0) w = listar_mantenimientos None w"
  by (simp add: listar_mantenimientos_def truthy_def)

end
